theory Spec2Isabelle
  imports Complex_Main
begin

section \<open>BTC-Predictor: a shallow embedding of \<open>main.py\<close>\<close>

text \<open>
  Conventions of the embedding.
  \<^item> A Python \<open>float\<close> is a \<open>real\<close>: rounding, infinities and NaN are outside the model,
    so every statement about a score or a price is a statement of exact arithmetic.
  \<^item> A \<open>datetime\<close> is the number of microseconds since the epoch, in UTC (every
    \<open>datetime\<close> of the program is built with \<open>tz=timezone.utc\<close>); its range limits
    (years 1 to 9999) are not modelled.
  \<^item> A \<open>str\<close> is a \<open>string\<close> of bytes; only ASCII letters change case and only the
    ASCII white space characters count as white space. Code points beyond ASCII whose
    lower case is an ASCII letter, or that Python counts as white space, are outside
    the model.
  \<^item> An exception is a value of type \<open>error\<close>; a function that can raise returns
    \<open>error + 'a\<close>.
  \<^item> The network is a parameter: the outcome of the \<open>k\<close>-th call of \<open>requests.get\<close>
    inside one invocation, and the entries \<open>feedparser.parse\<close> delivers for each source.
\<close>

subsection \<open>Errors and the outside world\<close>

datatype error =
    RuntimeError string "string option"  \<comment> \<open>message and \<open>__cause__\<close>\<close>
  | ZeroDivisionError
  | Raised string  \<comment> \<open>an exception of the HTTP layer that is no \<open>RequestException\<close>\<close>

datatype 'a response =
    Json 'a  \<comment> \<open>\<open>response.json()\<close> returned this value\<close>
  | RequestException string  \<comment> \<open>time-out, connection error, non-2xx status\<close>
  | OtherException string

datatype event = Get int | Sleep real

type_synonym datetime = int

definition USER_AGENT :: string where
  "USER_AGENT = ''bitcoin-news-sentiment/0.1''"

definition YAHOO_SYMBOL :: string where
  "YAHOO_SYMBOL = ''BTC-USD''"

subsection \<open>\<open>fetch_json\<close>: the retry loop of \<open>fetch_price_snapshot\<close>\<close>

definition chart_url :: "string \<Rightarrow> string" where
  "chart_url symbol =
     ''https://query1.finance.yahoo.com/v8/finance/chart/'' @ symbol
       @ ''?range=7d&interval=1d&includePrePost=false''"

text \<open>
  The body of \<open>for attempt in range(1, retries + 1)\<close>, from \<open>attempt\<close> on. The trace
  records every call of \<open>requests.get\<close> (with its attempt number) and every
  \<open>time.sleep\<close> (with its duration), in order.
\<close>

function fetch_loop ::
  "(int \<Rightarrow> 'a response) \<Rightarrow> string \<Rightarrow> int \<Rightarrow> int \<Rightarrow> string option \<Rightarrow> event list
     \<Rightarrow> event list \<times> (error + 'a)" where
  "fetch_loop net url retries attempt last_exc tr =
     (if attempt \<le> retries then
        (case net attempt of
           Json j \<Rightarrow> (tr @ [Get attempt], Inr j)
         | RequestException exc \<Rightarrow>
             fetch_loop net url retries (attempt + 1) (Some exc)
               (tr @ [Get attempt] @
                  (if attempt < retries then [Sleep (1.5 * real_of_int attempt)] else []))
         | OtherException exc \<Rightarrow> (tr @ [Get attempt], Inl (Raised exc)))
      else (tr, Inl (RuntimeError (''Failed to fetch '' @ url) last_exc)))"
  by pat_completeness auto
termination
  by (relation "measure (\<lambda>(net, url, retries, attempt, last_exc, tr). nat (retries + 1 - attempt))")
    auto

definition fetch_json ::
  "(int \<Rightarrow> 'a response) \<Rightarrow> int \<Rightarrow> string \<Rightarrow> event list \<times> (error + 'a)" where
  "fetch_json net retries url = fetch_loop net url retries 1 None []"

definition attempts :: "event list \<Rightarrow> nat" where
  "attempts tr = length (filter (\<lambda>ev. case ev of Get k \<Rightarrow> True | Sleep d \<Rightarrow> False) tr)"

definition sleeps :: "event list \<Rightarrow> real list" where
  "sleeps tr = concat (map (\<lambda>ev. case ev of Get k \<Rightarrow> [] | Sleep d \<Rightarrow> [d]) tr)"

subsection \<open>Text: \<open>str.lower\<close>, \<open>_clean_text\<close> and the tokens of \<open>_score_text\<close>\<close>

definition POSITIVE_WORDS :: "string set" where
  "POSITIVE_WORDS =
     {''beat'', ''breakout'', ''bull'', ''bullish'', ''buy'', ''demand'', ''gain'', ''green'',
      ''growth'', ''higher'', ''inflow'', ''jump'', ''optimism'', ''outperform'', ''rally'',
      ''recover'', ''resilient'', ''rise'', ''risk-on'', ''strong'', ''surge'', ''up''}"

definition NEGATIVE_WORDS :: "string set" where
  "NEGATIVE_WORDS =
     {''bear'', ''bearish'', ''crash'', ''decline'', ''drop'', ''fear'', ''headwind'', ''lower'',
      ''loss'', ''liquidation'', ''outflow'', ''plunge'', ''pressure'', ''risk-off'', ''sell'',
      ''selloff'', ''slump'', ''weak'', ''worse''}"

definition is_upper :: "char \<Rightarrow> bool" where
  "is_upper c = (65 \<le> (of_char c :: nat) \<and> (of_char c :: nat) \<le> 90)"

definition lower_char :: "char \<Rightarrow> char" where
  "lower_char c = (if is_upper c then char_of ((of_char c :: nat) + 32) else c)"

definition lower :: "string \<Rightarrow> string" where
  "lower text = map lower_char text"

text \<open>The character class \<open>[a-zA-Z']\<close>.\<close>

definition is_word_char :: "char \<Rightarrow> bool" where
  "is_word_char c =
     (let n = (of_char c :: nat) in (97 \<le> n \<and> n \<le> 122) \<or> (65 \<le> n \<and> n \<le> 90) \<or> n = 39)"

text \<open>
  \<open>re.findall(r"[a-zA-Z']+", s)\<close>: the maximal runs of word characters, left to right;
  \<open>cur\<close> is the run being read.
\<close>

fun findall_words :: "string \<Rightarrow> string \<Rightarrow> string list" where
  "findall_words cur [] = (if cur = [] then [] else [cur])"
| "findall_words cur (c # cs) =
     (if is_word_char c then findall_words (cur @ [c]) cs
      else (if cur = [] then [] else [cur]) @ findall_words [] cs)"

text \<open>The white space of \<open>\s\<close> and of \<open>str.strip\<close> among the ASCII characters.\<close>

definition is_space :: "char \<Rightarrow> bool" where
  "is_space c = (let n = (of_char c :: nat) in (9 \<le> n \<and> n \<le> 13) \<or> (28 \<le> n \<and> n \<le> 32))"

text \<open>\<open>re.sub(r"\s+", " ", s)\<close>; \<open>in_run\<close> says that the previous character was white space.\<close>

fun sub_spaces :: "bool \<Rightarrow> string \<Rightarrow> string" where
  "sub_spaces in_run [] = []"
| "sub_spaces in_run (c # cs) =
     (if is_space c then (if in_run then sub_spaces True cs else CHR '' '' # sub_spaces True cs)
      else c # sub_spaces False cs)"

definition strip :: "string \<Rightarrow> string" where
  "strip s = rev (dropWhile is_space (rev (dropWhile is_space s)))"

definition clean_text :: "string \<Rightarrow> string" where
  "clean_text text = strip (sub_spaces False text)"

definition score_text :: "string \<Rightarrow> real" where
  "score_text text =
     (let tokens = findall_words [] (lower text) in
      if tokens = [] then 0
      else
        let positives = int (length (filter (\<lambda>t. t \<in> POSITIVE_WORDS) tokens));
            negatives = int (length (filter (\<lambda>t. t \<in> NEGATIVE_WORDS) tokens))
        in if positives = 0 \<and> negatives = 0 then 0
           else real_of_int (positives - negatives) / real_of_int (max 1 (positives + negatives)))"

text \<open>The two counts the specification of the scorer speaks of.\<close>

definition positive_count :: "string \<Rightarrow> nat" where
  "positive_count text = length (filter (\<lambda>t. t \<in> POSITIVE_WORDS) (findall_words [] (lower text)))"

definition negative_count :: "string \<Rightarrow> nat" where
  "negative_count text = length (filter (\<lambda>t. t \<in> NEGATIVE_WORDS) (findall_words [] (lower text)))"

subsection \<open>News: \<open>NewsItem\<close>, \<open>fetch_news\<close>, \<open>filter_recent\<close>\<close>

record NewsItem =
  title :: string
  link :: string
  published :: datetime
  summary :: string
  score :: real

text \<open>
  A feed entry as \<open>fetch_news\<close> reads it: the two parsed time stamps (each the
  \<open>calendar.timegm\<close> value of the \<open>struct_time\<close>, or \<open>None\<close>), and the three texts, where
  a missing key reads as the empty string.
\<close>

record entry =
  published_parsed :: "int option"
  updated_parsed :: "int option"
  entry_title :: string
  entry_link :: string
  entry_summary :: string

definition to_datetime :: "int option \<Rightarrow> datetime option" where
  "to_datetime parsed = (case parsed of None \<Rightarrow> None | Some secs \<Rightarrow> Some (secs * 1000000))"

text \<open>Python's \<open>a or b\<close> on two optional \<open>struct_time\<close> values (a \<open>struct_time\<close> is never falsy).\<close>

definition py_or :: "'a option \<Rightarrow> 'a option \<Rightarrow> 'a option" where
  "py_or a b = (case a of None \<Rightarrow> b | Some x \<Rightarrow> Some x)"

text \<open>One turn of the inner loop of \<open>fetch_news\<close> on the state \<open>(items, seen)\<close>.\<close>

definition fetch_entry ::
  "entry \<Rightarrow> NewsItem list \<times> (string \<times> string) set \<Rightarrow> NewsItem list \<times> (string \<times> string) set" where
  "fetch_entry e st =
     (case st of (items, seen) \<Rightarrow>
        (case to_datetime (py_or (published_parsed e) (updated_parsed e)) of
           None \<Rightarrow> (items, seen)
         | Some pub \<Rightarrow>
             let ttl = clean_text (entry_title e);
                 lnk = entry_link e;
                 smr = clean_text (entry_summary e);
                 dedupe_key = (lower ttl, lnk)
             in if ttl = [] \<or> dedupe_key \<in> seen then (items, seen)
                else (items @ [\<lparr>title = ttl, link = lnk, published = pub, summary = smr,
                                 score = score_text (ttl @ '' '' @ smr)\<rparr>],
                      insert dedupe_key seen)))"

text \<open>
  \<open>parse url\<close> is \<open>feedparser.parse(url, ...).entries\<close>. The final sort is Python's stable
  sort with \<open>reverse=True\<close>: descending publish time, equal times in their input order.
\<close>

definition fetch_news :: "(string \<Rightarrow> entry list) \<Rightarrow> string list \<Rightarrow> NewsItem list" where
  "fetch_news parse sources =
     (let st = fold (\<lambda>url st. fold fetch_entry (parse url) st) sources ([], {})
      in sort_key (\<lambda>item. - published item) (fst st))"

definition date :: "datetime \<Rightarrow> int" where
  "date d = d div 86400000000"

definition timedelta_hours :: "int \<Rightarrow> int" where
  "timedelta_hours h = h * 3600000000"

definition filter_recent :: "NewsItem list \<Rightarrow> datetime \<Rightarrow> bool \<Rightarrow> NewsItem list \<times> string" where
  "filter_recent items now today_only =
     (let today_items = filter (\<lambda>item. date (published item) = date now) items in
      if today_items \<noteq> [] then (today_items, ''today'')
      else if today_only then ([], ''none'')
      else
        let cutoff = now - timedelta_hours 24;
            recent_items = filter (\<lambda>item. published item \<ge> cutoff) items
        in (recent_items, ''last_24h''))"

subsection \<open>Prices: \<open>FuturesSnapshot\<close> and \<open>fetch_price_snapshot\<close>\<close>

record FuturesSnapshot =
  last_price :: real
  last_close_time :: datetime
  yesterday_close :: real
  yesterday_close_time :: datetime
  pct_change_since_close :: real
  avg_abs_daily_return :: real

text \<open>
  The chart document, reduced to the paths the function reads: \<open>chart.result\<close>, and in a
  series \<open>timestamp\<close> and \<open>indicators.quote\<close>, and in a quote \<open>close\<close>, whose entries may be
  \<open>null\<close>. A missing key reads as the empty list, as the \<open>.get(key, [])\<close> calls do.
\<close>

record quote_data =
  close :: "real option list"

record series_data =
  timestamp :: "int list"
  quote :: "quote_data list"

record chart_data =
  result :: "series_data list"

definition fromtimestamp :: "int \<Rightarrow> datetime" where
  "fromtimestamp ts = ts * 1000000"

text \<open>Lines 212 to 217: the loop that collects the absolute daily returns.\<close>

definition abs_returns :: "(int \<times> real) list \<Rightarrow> real list" where
  "abs_returns cleaned =
     concat (map (\<lambda>i. let prev_close = snd (cleaned ! (i - 1));
                            cl = snd (cleaned ! i)
                        in if prev_close > 0 then [\<bar>(cl - prev_close) / prev_close\<bar>] else [])
               [1..<length cleaned])"

text \<open>Line 218: their mean, or \<open>0.0\<close> when there is none.\<close>

definition mean_abs_return :: "(int \<times> real) list \<Rightarrow> real" where
  "mean_abs_return cleaned =
     (let returns = abs_returns cleaned
      in if returns \<noteq> [] then sum_list returns / real (length returns) else 0)"

text \<open>
  Lines 207 to 227, for a cleaned and sorted series of at least two closes.
  \<open>prior_close\<close> is the local variable \<open>yesterday_close\<close>; dividing by it when it is
  \<open>0.0\<close> raises \<open>ZeroDivisionError\<close>, before the returns are looked at.
\<close>

definition snapshot_of_cleaned :: "(int \<times> real) list \<Rightarrow> error + FuturesSnapshot" where
  "snapshot_of_cleaned cleaned =
     (let last_close_ts = fst (cleaned ! (length cleaned - 1));
          last_close = snd (cleaned ! (length cleaned - 1));
          yesterday_close_ts = fst (cleaned ! (length cleaned - 2));
          prior_close = snd (cleaned ! (length cleaned - 2))
      in if prior_close = 0 then Inl ZeroDivisionError
         else
           Inr \<lparr>last_price = last_close,
                last_close_time = fromtimestamp last_close_ts,
                yesterday_close = prior_close,
                yesterday_close_time = fromtimestamp yesterday_close_ts,
                pct_change_since_close = (last_close - prior_close) / prior_close * 100,
                avg_abs_daily_return = mean_abs_return cleaned\<rparr>)"

text \<open>Lines 198 to 202: the pairs of \<open>zip(timestamps, closes)\<close> whose close is not \<open>None\<close>.\<close>

definition clean_closes :: "int list \<Rightarrow> real option list \<Rightarrow> (int \<times> real) list" where
  "clean_closes timestamps closes =
     concat (map (\<lambda>(ts, c). case c of None \<Rightarrow> [] | Some v \<Rightarrow> [(ts, v)]) (zip timestamps closes))"

text \<open>Everything after \<open>chart = fetch_json(chart_url)\<close>, lines 186 to 227.\<close>

definition snapshot_of_chart :: "chart_data \<Rightarrow> error + FuturesSnapshot" where
  "snapshot_of_chart chart =
     (if result chart = [] then
        Inl (RuntimeError ''No chart data returned from Yahoo Finance.'' None)
      else
        let series = hd (result chart);
            timestamps = timestamp series;
            indicators = quote series
        in if timestamps = [] \<or> indicators = [] then
             Inl (RuntimeError ''Yahoo Finance response missing timestamps or prices.'' None)
           else
             let closes = close (hd indicators) in
             if closes = [] \<or> length closes < 2 then
               Inl (RuntimeError ''Not enough close data from Yahoo Finance.'' None)
             else
               let cleaned = clean_closes timestamps closes in
               if length cleaned < 2 then
                 Inl (RuntimeError ''Not enough valid close data from Yahoo Finance.'' None)
               else snapshot_of_cleaned (sort_key fst cleaned))"

text \<open>
  The \<open>timeout\<close> argument only travels to \<open>requests.get\<close>; its effect is part of \<open>net\<close>.
\<close>

definition fetch_price_snapshot ::
  "(int \<Rightarrow> chart_data response) \<Rightarrow> string \<Rightarrow> int \<Rightarrow> event list \<times> (error + FuturesSnapshot)" where
  "fetch_price_snapshot net symbol retries =
     (case fetch_json net retries (chart_url symbol) of
        (tr, Inl err) \<Rightarrow> (tr, Inl err)
      | (tr, Inr chart) \<Rightarrow> (tr, snapshot_of_chart chart))"

subsection \<open>The signal: \<open>combine_signal\<close>, \<open>expected_move_pct\<close> and the price target\<close>

definition combine_signal :: "NewsItem list \<Rightarrow> FuturesSnapshot \<Rightarrow> real" where
  "combine_signal news_items futures =
     (let news_score =
            (if news_items \<noteq> [] then sum_list (map score news_items) / real (length news_items)
             else 0);
          price_score = max (- 1) (min 1 (pct_change_since_close futures / 5));
          combined = 0.7 * news_score + 0.3 * price_score
      in combined)"



subsection \<open>The specification's words, for comparison with the code\<close>

text \<open>
  The mean of \<open>|close[i]/close[i-1] - 1|\<close> over the adjacent pairs of a close series whose
  previous close is strictly positive, and \<open>0\<close> when there is no such pair. This follows
  the specification's sentence, not the code.
\<close>

definition valid_pairs :: "real list \<Rightarrow> (real \<times> real) list" where
  "valid_pairs closes = filter (\<lambda>(prev, cur). prev > 0) (zip closes (tl closes))"

definition spec_avg_abs_daily_return :: "real list \<Rightarrow> real" where
  "spec_avg_abs_daily_return closes =
     (if valid_pairs closes = [] then 0
      else sum_list (map (\<lambda>(prev, cur). \<bar>cur / prev - 1\<bar>) (valid_pairs closes))
             / real (length (valid_pairs closes)))"

text \<open>
  Ingestion in the specification's words: an entry survives when it has a publish time
  and a non-empty cleaned title; its key is the lower-cased title with the link; the
  item of an entry is built from its cleaned texts and scored.
\<close>

definition surviving :: "entry \<Rightarrow> bool" where
  "surviving e =
     (py_or (published_parsed e) (updated_parsed e) \<noteq> None \<and> clean_text (entry_title e) \<noteq> [])"

definition entry_key :: "entry \<Rightarrow> string \<times> string" where
  "entry_key e = (lower (clean_text (entry_title e)), entry_link e)"

definition item_key :: "NewsItem \<Rightarrow> string \<times> string" where
  "item_key item = (lower (title item), link item)"

definition item_of :: "entry \<Rightarrow> NewsItem" where
  "item_of e =
     \<lparr>title = clean_text (entry_title e), link = entry_link e,
      published = the (to_datetime (py_or (published_parsed e) (updated_parsed e))),
      summary = clean_text (entry_summary e),
      score = score_text (clean_text (entry_title e) @ '' '' @ clean_text (entry_summary e))\<rparr>"

definition all_entries :: "(string \<Rightarrow> entry list) \<Rightarrow> string list \<Rightarrow> entry list" where
  "all_entries parse sources = concat (map parse sources)"

text \<open>
  Two feeds for the examples: the first entry of feed \<open>b\<close> repeats the key of the first
  entry of feed \<open>a\<close> (after cleaning and lower-casing), and the second entry of feed \<open>a\<close>
  has no time stamp.
\<close>

definition example_feeds :: "string \<Rightarrow> entry list" where
  "example_feeds url =
     (if url = ''a'' then
        [\<lparr>published_parsed = Some 100, updated_parsed = None, entry_title = ''  BTC   Rally '',
          entry_link = ''l'', entry_summary = ''first''\<rparr>,
         \<lparr>published_parsed = None, updated_parsed = None, entry_title = ''no time'',
          entry_link = ''m'', entry_summary = ''x''\<rparr>]
      else
        [\<lparr>published_parsed = None, updated_parsed = Some 200, entry_title = ''btc rally'',
          entry_link = ''l'', entry_summary = ''second''\<rparr>,
         \<lparr>published_parsed = Some 300, updated_parsed = None, entry_title = ''Other'',
          entry_link = ''l'', entry_summary = ''third''\<rparr>])"

section \<open>Properties\<close>

subsection \<open>The retry loop\<close>

declare fetch_loop.simps [simp del]

lemma fetch_loop_exhausted:
  "attempt > retries \<Longrightarrow>
   fetch_loop net url retries attempt last_exc tr =
     (tr, Inl (RuntimeError (''Failed to fetch '' @ url) last_exc))"
  by (simp add: fetch_loop.simps)

lemma fetch_loop_all_fail:
  "\<lbrakk>attempt \<le> retries; \<forall>k. attempt \<le> k \<and> k \<le> retries \<longrightarrow> net k = RequestException (exc k)\<rbrakk> \<Longrightarrow>
   fetch_loop net url retries attempt le tr =
     (tr @ concat (map (\<lambda>k. if k < retries then [Get k, Sleep (1.5 * real_of_int k)] else [Get k]) [attempt..retries]),
      Inl (RuntimeError (''Failed to fetch '' @ url) (Some (exc retries))))"
proof (induction net url retries attempt le tr rule: fetch_loop.induct)
  case (1 net url retries attempt last_exc tr)
  have here: "net attempt = RequestException (exc attempt)"
    using "1.prems" by simp
  show ?case
  proof (cases "attempt < retries")
    case True
    have rest: "\<forall>k. attempt + 1 \<le> k \<and> k \<le> retries \<longrightarrow> net k = RequestException (exc k)"
      using "1.prems" by simp
    have ih: "fetch_loop net url retries (attempt + 1) (Some (exc attempt))
         (tr @ [Get attempt] @ (if attempt < retries then [Sleep (1.5 * real_of_int attempt)] else [])) =
       ((tr @ [Get attempt] @ (if attempt < retries then [Sleep (1.5 * real_of_int attempt)] else []))
          @ concat (map (\<lambda>k. if k < retries then [Get k, Sleep (1.5 * real_of_int k)] else [Get k]) [attempt + 1..retries]),
        Inl (RuntimeError (''Failed to fetch '' @ url) (Some (exc retries))))"
      using "1.IH" [OF "1.prems"(1) here _ rest] True by simp
    have up: "[attempt..retries] = attempt # [attempt + 1..retries]"
      using True by (simp add: upto_rec1)
    show ?thesis
      using True here ih up by (subst fetch_loop.simps) simp
  next
    case False
    then have eq: "attempt = retries" using "1.prems"(1) by simp
    show ?thesis
      using here eq by (subst fetch_loop.simps) (simp add: fetch_loop_exhausted)
  qed
qed

lemma attempts_retry_trace:
  "a \<le> r + 1 \<Longrightarrow>
   attempts (concat (map (\<lambda>k. if k < r then [Get k, Sleep (1.5 * real_of_int k)] else [Get k]) [a..r]))
     = nat (r + 1 - a)"
proof (induction a r rule: upto.induct)
  case (1 i j)
  show ?case
  proof (cases "i \<le> j")
    case True
    then have up: "[i..j] = i # [i + 1..j]" by (simp add: upto_rec1)
    have "attempts (concat (map (\<lambda>k. if k < j then [Get k, Sleep (1.5 * real_of_int k)] else [Get k]) [i + 1..j])) = nat (j + 1 - (i + 1))"
      using "1.IH" True by simp
    then show ?thesis using True up by (auto simp add: attempts_def)
  next
    case False
    then show ?thesis using "1.prems" by (simp add: attempts_def)
  qed
qed

lemma sleeps_retry_trace:
  "sleeps (concat (map (\<lambda>k. if k < r then [Get k, Sleep (1.5 * real_of_int k)] else [Get k]) [a..r]))
     = map (\<lambda>k. 1.5 * real_of_int k) [a..r - 1]"
proof (induction a r rule: upto.induct)
  case (1 i j)
  show ?case
  proof (cases "i \<le> j")
    case True
    then have up: "[i..j] = i # [i + 1..j]" by (simp add: upto_rec1)
    have ih: "sleeps (concat (map (\<lambda>k. if k < j then [Get k, Sleep (1.5 * real_of_int k)] else [Get k]) [i + 1..j])) = map (\<lambda>k. 1.5 * real_of_int k) [i + 1..j - 1]"
      using "1.IH" True by simp
    show ?thesis
    proof (cases "i < j")
      case True
      then have "[i..j - 1] = i # [i + 1..j - 1]" by (simp add: upto_rec1)
      then show ?thesis using True up ih by (simp add: sleeps_def)
    next
      case False
      then show ?thesis using up ih by (simp add: sleeps_def)
    qed
  next
    case False
    then show ?thesis by (simp add: sleeps_def)
  qed
qed

text \<open>
  Claim C3. For every \<open>retries \<ge> 1\<close>, when every attempt fails with a
  \<open>RequestException\<close>, the loop calls \<open>requests.get\<close> exactly \<open>retries\<close> times, sleeps
  \<open>1.5 * attempt\<close> after each attempt but the last (the last event is the final call),
  and raises the \<open>RuntimeError\<close> whose cause is the exception of the last attempt.
\<close>

theorem fetch_json_retries_exhausted:
  assumes "1 \<le> retries"
    and "\<forall>k. 1 \<le> k \<and> k \<le> retries \<longrightarrow> net k = RequestException (exc k)"
  shows "fetch_json net retries url =
           (concat (map (\<lambda>k. if k < retries then [Get k, Sleep (1.5 * real_of_int k)] else [Get k])
                      [1..retries]),
            Inl (RuntimeError (''Failed to fetch '' @ url) (Some (exc retries))))
         \<and> attempts (fst (fetch_json net retries url)) = nat retries
         \<and> sleeps (fst (fetch_json net retries url)) = map (\<lambda>k. 1.5 * real_of_int k) [1..retries - 1]
         \<and> last (fst (fetch_json net retries url)) = Get retries"
proof -
  let ?tr = "concat (map (\<lambda>k. if k < retries then [Get k, Sleep (1.5 * real_of_int k)] else [Get k]) [1..retries])"
  have run: "fetch_json net retries url =
      (?tr, Inl (RuntimeError (''Failed to fetch '' @ url) (Some (exc retries))))"
    unfolding fetch_json_def using fetch_loop_all_fail [OF assms, of url None "[]"] by simp
  have n: "attempts ?tr = nat retries"
    using attempts_retry_trace [of 1 retries] assms(1) by simp
  have s: "sleeps ?tr = map (\<lambda>k. 1.5 * real_of_int k) [1..retries - 1]"
    by (rule sleeps_retry_trace)
  have "[1..retries] = [1..retries - 1] @ [retries]"
    using assms(1) upto_rec2 [of 1 retries] by simp
  then have l: "last ?tr = Get retries"
    by simp
  show ?thesis using run n s l by simp
qed

theorem fetch_json_retries_exhausted_witness:
  "fetch_json (\<lambda>k. RequestException (if k = 3 then ''reset'' else ''timeout'') :: chart_data response) 3 ''u'' =
     ([Get 1, Sleep 1.5, Get 2, Sleep 3, Get 3], Inl (RuntimeError ''Failed to fetch u'' (Some ''reset'')))
   \<and> attempts (fst (fetch_json (\<lambda>k. RequestException (if k = 3 then ''reset'' else ''timeout'') :: chart_data response) 3 ''u'')) = 3"
proof -
  have h1: "(1::int) \<le> 3" by simp
  have h2: "\<forall>k. 1 \<le> k \<and> k \<le> (3::int) \<longrightarrow>
      (\<lambda>k. RequestException (if k = 3 then ''reset'' else ''timeout'') :: chart_data response) k
        = RequestException ((\<lambda>k. if k = 3 then ''reset'' else ''timeout'') k)" by simp
  show ?thesis
    using fetch_json_retries_exhausted [OF h1 h2, of "''u''"] by (simp add: upto_rec1 attempts_def)
qed

text \<open>
  Claim C9. With \<open>retries \<le> 0\<close> the loop body never runs: no call of \<open>requests.get\<close>, no
  sleep, and the \<open>RuntimeError\<close> is raised with no cause; \<open>fetch_price_snapshot\<close> fails
  with it.
\<close>

theorem fetch_json_no_retries:
  assumes "retries \<le> 0"
  shows "fetch_json net retries url = ([], Inl (RuntimeError (''Failed to fetch '' @ url) None))
         \<and> fetch_price_snapshot net' symbol retries =
             ([], Inl (RuntimeError (''Failed to fetch '' @ chart_url symbol) None))"
  using assms by (simp add: fetch_json_def fetch_price_snapshot_def fetch_loop_exhausted)

theorem fetch_json_no_retries_witness:
  "fetch_json (\<lambda>k. Json (7::nat)) 0 ''u'' = ([], Inl (RuntimeError ''Failed to fetch u'' None))
   \<and> fst (fetch_price_snapshot (\<lambda>k. OtherException ''x'') ''BTC-USD'' (- 2)) = []"
proof -
  have h: "(0::int) \<le> 0" by simp
  have h': "(- 2::int) \<le> 0" by simp
  show ?thesis
    using fetch_json_no_retries [OF h, of "\<lambda>k. Json (7::nat)" "''u''"]
      fetch_json_no_retries [OF h', of "\<lambda>k. Json (7::nat)" "''u''" "\<lambda>k. OtherException ''x''" "''BTC-USD''"]
    by simp
qed


subsection \<open>The lexicon score, the combined signal and the projection\<close>

lemma score_text_counts:
  "score_text text =
     (if positive_count text = 0 \<and> negative_count text = 0 then 0
      else (real (positive_count text) - real (negative_count text))
             / (real (positive_count text) + real (negative_count text)))"
  by (auto simp add: score_text_def positive_count_def negative_count_def Let_def max_def)

text \<open>
  Claim C5. For every text the lexicon score lies in \<open>[-1, 1]\<close>; it is \<open>0\<close> when no token is
  a positive or a negative word, \<open>1\<close> when there are positive hits only, \<open>-1\<close> when there
  are negative hits only, and whenever there is a hit it is
  \<open>(positive_count - negative_count) / (positive_count + negative_count)\<close>.
\<close>

theorem score_text_lexicon:
  "- 1 \<le> score_text text \<and> score_text text \<le> 1
   \<and> (positive_count text = 0 \<and> negative_count text = 0 \<longrightarrow> score_text text = 0)
   \<and> (0 < positive_count text \<and> negative_count text = 0 \<longrightarrow> score_text text = 1)
   \<and> (positive_count text = 0 \<and> 0 < negative_count text \<longrightarrow> score_text text = - 1)
   \<and> (\<not> (positive_count text = 0 \<and> negative_count text = 0) \<longrightarrow>
        score_text text =
          (real (positive_count text) - real (negative_count text))
            / (real (positive_count text) + real (negative_count text)))"
proof -
  let ?p = "real (positive_count text)" and ?n = "real (negative_count text)"
  have bounds: "- 1 \<le> (?p - ?n) / (?p + ?n) \<and> (?p - ?n) / (?p + ?n) \<le> 1"
    if "0 < ?p + ?n"
    using that by (simp add: pos_le_divide_eq pos_divide_le_eq)
  show ?thesis
  proof (cases "positive_count text = 0 \<and> negative_count text = 0")
    case True
    then show ?thesis by (simp add: score_text_counts)
  next
    case False
    then have "0 < ?p + ?n" by auto
    from bounds [OF this] False show ?thesis
      by (auto simp add: score_text_counts)
  qed
qed

theorem score_text_lexicon_witness:
  "(positive_count ''Bitcoin holds steady'' = 0 \<and> negative_count ''Bitcoin holds steady'' = 0
      \<and> score_text ''Bitcoin holds steady'' = 0)
   \<and> (positive_count ''Bitcoin RALLY'' = 1 \<and> negative_count ''Bitcoin RALLY'' = 0
      \<and> score_text ''Bitcoin RALLY'' = 1)
   \<and> (positive_count ''Markets crash'' = 0 \<and> negative_count ''Markets crash'' = 1
      \<and> score_text ''Markets crash'' = - 1)
   \<and> (positive_count ''Rally and surge, then sell'' = 2 \<and> negative_count ''Rally and surge, then sell'' = 1
      \<and> score_text ''Rally and surge, then sell'' = 1 / 3)"
proof -
  have a: "positive_count ''Bitcoin holds steady'' = 0" "negative_count ''Bitcoin holds steady'' = 0"
    by code_simp+
  have b: "positive_count ''Bitcoin RALLY'' = 1" "negative_count ''Bitcoin RALLY'' = 0"
    by code_simp+
  have c: "positive_count ''Markets crash'' = 0" "negative_count ''Markets crash'' = 1"
    by code_simp+
  have d: "positive_count ''Rally and surge, then sell'' = 2" "negative_count ''Rally and surge, then sell'' = 1"
    by code_simp+
  show ?thesis
    using score_text_lexicon [of "''Bitcoin holds steady''"]
      score_text_lexicon [of "''Bitcoin RALLY''"]
      score_text_lexicon [of "''Markets crash''"]
      score_text_lexicon [of "''Rally and surge, then sell''"]
    by (simp add: a b c d)
qed

text \<open>
  Claim C6. \<open>combine_signal\<close> returns \<open>0.7 * news_score + 0.3 * clamp(pct_change / 5, -1, 1)\<close>,
  where \<open>news_score\<close> is the mean of the item scores, or \<open>0\<close> for the empty list; for the
  empty list the result is \<open>0.3 * clamp(pct_change / 5, -1, 1)\<close>.
\<close>

theorem combine_signal_formula:
  "combine_signal news_items futures =
     0.7 * (if news_items = [] then 0
            else sum_list (map score news_items) / real (length news_items))
     + 0.3 * max (- 1) (min 1 (pct_change_since_close futures / 5))
   \<and> combine_signal [] futures = 0.3 * max (- 1) (min 1 (pct_change_since_close futures / 5))"
  by (simp add: combine_signal_def Let_def)

theorem combine_signal_formula_witness:
  "combine_signal
     [\<lparr>title = ''a'', link = '''', published = 0, summary = '''', score = 0.5\<rparr>,
      \<lparr>title = ''b'', link = '''', published = 0, summary = '''', score = - 0.1\<rparr>]
     \<lparr>last_price = 103, last_close_time = 0, yesterday_close = 100, yesterday_close_time = 0,
      pct_change_since_close = 3, avg_abs_daily_return = 0.02\<rparr> = 0.32"
  using combine_signal_formula
    [of "[\<lparr>title = ''a'', link = '''', published = 0, summary = '''', score = 0.5\<rparr>,
          \<lparr>title = ''b'', link = '''', published = 0, summary = '''', score = - 0.1\<rparr>]"
        "\<lparr>last_price = 103, last_close_time = 0, yesterday_close = 100, yesterday_close_time = 0,
          pct_change_since_close = 3, avg_abs_daily_return = 0.02\<rparr>"]
  by simp



subsection \<open>The recency filter\<close>

lemma filter_nonempty_iff: "filter P xs \<noteq> [] \<longleftrightarrow> (\<exists>x \<in> set xs. P x)"
  by (simp add: filter_empty_conv)

text \<open>
  Claim C2. \<open>filter_recent\<close> follows three tiers in order: when some item is published on
  the date of \<open>now\<close>, the result is exactly the items of that date, labelled \<open>today\<close>,
  whatever the last 24 hours hold; otherwise, with \<open>today_only\<close>, it is empty and labelled
  \<open>none\<close>; otherwise it is exactly the items published at or after \<open>now - 24 h\<close>,
  labelled \<open>last_24h\<close>.
\<close>

theorem filter_recent_three_tiers:
  "((\<exists>item \<in> set items. date (published item) = date now) \<longrightarrow>
      filter_recent items now today_only
        = (filter (\<lambda>item. date (published item) = date now) items, ''today''))
   \<and> (\<not> (\<exists>item \<in> set items. date (published item) = date now) \<and> today_only \<longrightarrow>
      filter_recent items now today_only = ([], ''none''))
   \<and> (\<not> (\<exists>item \<in> set items. date (published item) = date now) \<and> \<not> today_only \<longrightarrow>
      filter_recent items now today_only
        = (filter (\<lambda>item. now - timedelta_hours 24 \<le> published item) items, ''last_24h''))"
  by (simp add: filter_recent_def Let_def filter_nonempty_iff)

text \<open>
  now = day 1, 01:00:00 = 90000 s. Items: a at 88000 s (day 1), b at 80000 s (day 0, within 24 h),
  c at 50000 s (day 0, within 24 h), d at 0 (older than 24 h).
\<close>

theorem filter_recent_three_tiers_witness:
  "filter_recent
     [\<lparr>title = ''a'', link = '''', published = 88000000000, summary = '''', score = 0\<rparr>,
      \<lparr>title = ''b'', link = '''', published = 80000000000, summary = '''', score = 0\<rparr>,
      \<lparr>title = ''c'', link = '''', published = 50000000000, summary = '''', score = 0\<rparr>]
     90000000000 False
     = ([\<lparr>title = ''a'', link = '''', published = 88000000000, summary = '''', score = 0\<rparr>], ''today'')
   \<and> filter_recent
     [\<lparr>title = ''b'', link = '''', published = 80000000000, summary = '''', score = 0\<rparr>,
      \<lparr>title = ''c'', link = '''', published = 50000000000, summary = '''', score = 0\<rparr>]
     90000000000 True
     = ([], ''none'')
   \<and> filter_recent
     [\<lparr>title = ''b'', link = '''', published = 80000000000, summary = '''', score = 0\<rparr>,
      \<lparr>title = ''d'', link = '''', published = 0, summary = '''', score = 0\<rparr>]
     90000000000 False
     = ([\<lparr>title = ''b'', link = '''', published = 80000000000, summary = '''', score = 0\<rparr>], ''last_24h'')"
  using filter_recent_three_tiers
      [of "[\<lparr>title = ''a'', link = '''', published = 88000000000, summary = '''', score = 0\<rparr>,
            \<lparr>title = ''b'', link = '''', published = 80000000000, summary = '''', score = 0\<rparr>,
            \<lparr>title = ''c'', link = '''', published = 50000000000, summary = '''', score = 0\<rparr>]"
          90000000000 False]
    filter_recent_three_tiers
      [of "[\<lparr>title = ''b'', link = '''', published = 80000000000, summary = '''', score = 0\<rparr>,
            \<lparr>title = ''c'', link = '''', published = 50000000000, summary = '''', score = 0\<rparr>]"
          90000000000 True]
    filter_recent_three_tiers
      [of "[\<lparr>title = ''b'', link = '''', published = 80000000000, summary = '''', score = 0\<rparr>,
            \<lparr>title = ''d'', link = '''', published = 0, summary = '''', score = 0\<rparr>]"
          90000000000 False]
  by (simp add: date_def timedelta_hours_def)

text \<open>
  Claim C10. In the \<open>last_24h\<close> fallback (no item on the date of \<open>now\<close>, \<open>today_only\<close>
  false) the window has no upper bound: the result holds every item published at or after
  \<open>now - 24 h\<close>, so every item published after \<open>now\<close> is in it.
\<close>

theorem filter_recent_no_upper_bound:
  assumes "\<not> (\<exists>item \<in> set items. date (published item) = date now)"
  shows "snd (filter_recent items now False) = ''last_24h''
         \<and> set (fst (filter_recent items now False))
             = {item \<in> set items. now - timedelta_hours 24 \<le> published item}
         \<and> (\<forall>item \<in> set items. now < published item \<longrightarrow>
               item \<in> set (fst (filter_recent items now False)))"
  using assms
  by (auto simp add: filter_recent_def Let_def filter_nonempty_iff timedelta_hours_def)

text \<open>now = day 0, 23:00:00 = 82800 s; the item is two hours later, on day 1.\<close>

theorem filter_recent_no_upper_bound_witness:
  "(82800000000 :: int)
      < published \<lparr>title = ''f'', link = ''l'', published = 90000000000, summary = ''s'', score = 0\<rparr>
   \<and> date (published \<lparr>title = ''f'', link = ''l'', published = 90000000000, summary = ''s'', score = 0\<rparr>)
       \<noteq> date 82800000000
   \<and> \<lparr>title = ''f'', link = ''l'', published = 90000000000, summary = ''s'', score = 0\<rparr>
       \<in> set (fst (filter_recent
            [\<lparr>title = ''f'', link = ''l'', published = 90000000000, summary = ''s'', score = 0\<rparr>]
            82800000000 False))
   \<and> snd (filter_recent
            [\<lparr>title = ''f'', link = ''l'', published = 90000000000, summary = ''s'', score = 0\<rparr>]
            82800000000 False) = ''last_24h''"
proof -
  let ?f = "\<lparr>title = ''f'', link = ''l'', published = 90000000000, summary = ''s'', score = 0\<rparr>"
  have h: "\<not> (\<exists>item \<in> set [?f]. date (published item) = date 82800000000)"
    by (simp add: date_def)
  have inp: "?f \<in> set [?f]" by simp
  have fut: "(82800000000 :: int) < published ?f" by simp
  from filter_recent_no_upper_bound [OF h]
  have lab: "snd (filter_recent [?f] 82800000000 False) = ''last_24h''"
    and mem: "?f \<in> set (fst (filter_recent [?f] 82800000000 False))"
    using inp fut by blast+
  have dt: "date (published ?f) \<noteq> date 82800000000"
    by (simp add: date_def)
  show ?thesis using fut dt mem lab by blast
qed

subsection \<open>The price snapshot\<close>

lemma abs_returns_short: "abs_returns [] = []" "abs_returns [x] = []"
  by (simp_all add: abs_returns_def)

lemma abs_returns_step:
  "abs_returns (x # y # rest) =
     (if snd x > 0 then [\<bar>(snd y - snd x) / snd x\<bar>] else []) @ abs_returns (y # rest)"
proof -
  define g where "g = (\<lambda>i. let prev_close = snd ((x # y # rest) ! (i - 1)); cl = snd ((x # y # rest) ! i)
                        in if prev_close > 0 then [\<bar>(cl - prev_close) / prev_close\<bar>] else [])"
  define h where "h = (\<lambda>i. let prev_close = snd ((y # rest) ! (i - 1)); cl = snd ((y # rest) ! i)
                        in if prev_close > 0 then [\<bar>(cl - prev_close) / prev_close\<bar>] else [])"
  define n where "n = length (y # rest)"
  have whole: "abs_returns (x # y # rest) = concat (map g [1..<Suc n])"
    by (simp add: abs_returns_def g_def n_def del: upt_Suc)
  have part: "abs_returns (y # rest) = concat (map h [1..<n])"
    by (simp add: abs_returns_def h_def n_def del: upt_Suc)
  have "1 < Suc n" by (simp add: n_def)
  then have idx: "[1..<Suc n] = 1 # map Suc [1..<n]"
    by (simp add: upt_conv_Cons map_Suc_upt del: upt_Suc)
  have shift: "map (g \<circ> Suc) [1..<n] = map h [1..<n]"
  proof (rule map_cong [OF refl])
    fix i assume "i \<in> set [1..<n]"
    then have "1 \<le> i" by (simp only: set_upt atLeastLessThan_iff)
    then obtain j where "i = Suc j" by (cases i) auto
    then show "(g \<circ> Suc) i = h i"
      by (simp add: g_def h_def Let_def)
  qed
  have first: "g 1 = (if snd x > 0 then [\<bar>(snd y - snd x) / snd x\<bar>] else [])"
    by (simp add: g_def Let_def)
  have "concat (map g (1 # map Suc [1..<n])) = g 1 @ concat (map (g \<circ> Suc) [1..<n])"
    by (simp only: list.map concat.simps map_map)
  then show ?thesis
    by (simp only: whole part idx shift first)
qed

lemma valid_pairs_short: "valid_pairs [] = []" "valid_pairs [a] = []"
  by (simp_all add: valid_pairs_def)

lemma valid_pairs_step:
  "valid_pairs (a # b # r) = (if a > 0 then [(a, b)] else []) @ valid_pairs (b # r)"
  by (simp add: valid_pairs_def)

lemma abs_returns_valid_pairs:
  "abs_returns cleaned = map (\<lambda>(prev, cur). \<bar>cur / prev - 1\<bar>) (valid_pairs (map snd cleaned))"
proof (induction cleaned rule: induct_list012)
  case 1
  show ?case by (simp add: abs_returns_short valid_pairs_short)
next
  case (2 x)
  show ?case by (simp add: abs_returns_short valid_pairs_short)
next
  case (3 x y zs)
  have "snd x > 0 \<Longrightarrow> \<bar>(snd y - snd x) / snd x\<bar> = \<bar>snd y / snd x - 1\<bar>"
    by (simp add: diff_divide_distrib)
  with 3 show ?case
    by (simp add: abs_returns_step valid_pairs_step del: abs_of_nonneg)
qed

lemma mean_abs_return_spec:
  "mean_abs_return cleaned = spec_avg_abs_daily_return (map snd cleaned)"
  by (simp add: mean_abs_return_def spec_avg_abs_daily_return_def abs_returns_valid_pairs Let_def)

lemma anchor_pair_adjacent:
  assumes "2 \<le> length xs"
  shows "(xs ! (length xs - 2), xs ! (length xs - 1)) \<in> set (zip xs (tl xs))"
proof -
  let ?i = "length xs - 2"
  have i: "?i < length xs" "?i < length (tl xs)" "Suc ?i = length xs - 1"
    using assms by simp_all
  then have "tl xs ! ?i = xs ! (length xs - 1)"
    by (simp add: nth_tl)
  moreover have "zip xs (tl xs) ! ?i = (xs ! ?i, tl xs ! ?i)"
    using i by simp
  moreover have "?i < length (zip xs (tl xs))"
    using i by simp
  ultimately show ?thesis
    by (metis nth_mem)
qed

text \<open>
  Claim C4, as amended. For every cleaned series, the value computed for
  \<open>avg_abs_daily_return\<close> is the mean of \<open>|close[i]/close[i-1] - 1|\<close> over the adjacent
  pairs whose previous close is strictly positive, and it is \<open>0\<close> when there is no such
  pair; with at least two closes and a prior close that is not zero, the snapshot is
  produced and carries that value; and the pair of the two anchor closes is one of the
  pairs of the mean whenever the prior close is positive.
\<close>

theorem avg_abs_daily_return_mean:
  "mean_abs_return cleaned = spec_avg_abs_daily_return (map snd cleaned)
   \<and> (valid_pairs (map snd cleaned) = [] \<longrightarrow> mean_abs_return cleaned = 0)
   \<and> (2 \<le> length cleaned \<and> snd (cleaned ! (length cleaned - 2)) \<noteq> 0 \<longrightarrow>
        (\<exists>snap. snapshot_of_cleaned cleaned = Inr snap
           \<and> avg_abs_daily_return snap = spec_avg_abs_daily_return (map snd cleaned)))
   \<and> (2 \<le> length cleaned \<and> 0 < snd (cleaned ! (length cleaned - 2)) \<longrightarrow>
        (snd (cleaned ! (length cleaned - 2)), snd (cleaned ! (length cleaned - 1)))
          \<in> set (valid_pairs (map snd cleaned)))"
proof -
  have eq: "mean_abs_return cleaned = spec_avg_abs_daily_return (map snd cleaned)"
    by (rule mean_abs_return_spec)
  have zero: "valid_pairs (map snd cleaned) = [] \<longrightarrow> mean_abs_return cleaned = 0"
    by (simp add: eq spec_avg_abs_daily_return_def)
  have snap: "2 \<le> length cleaned \<and> snd (cleaned ! (length cleaned - 2)) \<noteq> 0 \<longrightarrow>
        (\<exists>snap. snapshot_of_cleaned cleaned = Inr snap
           \<and> avg_abs_daily_return snap = spec_avg_abs_daily_return (map snd cleaned))"
    by (simp add: snapshot_of_cleaned_def Let_def eq)
  have anchor: "(snd (cleaned ! (length cleaned - 2)), snd (cleaned ! (length cleaned - 1)))
          \<in> set (valid_pairs (map snd cleaned))"
    if len: "2 \<le> length cleaned" and pos: "0 < snd (cleaned ! (length cleaned - 2))"
  proof -
    have "(map snd cleaned ! (length (map snd cleaned) - 2),
           map snd cleaned ! (length (map snd cleaned) - 1))
            \<in> set (zip (map snd cleaned) (tl (map snd cleaned)))"
      by (rule anchor_pair_adjacent) (simp add: len)
    moreover have "map snd cleaned ! (length cleaned - 2) = snd (cleaned ! (length cleaned - 2))"
      "map snd cleaned ! (length cleaned - 1) = snd (cleaned ! (length cleaned - 1))"
      using len by simp_all
    ultimately show ?thesis
      using pos by (simp add: valid_pairs_def)
  qed
  show ?thesis using eq zero snap anchor by blast
qed

theorem avg_abs_daily_return_mean_witness:
  "mean_abs_return [(1, 100), (2, 110)] = 1 / 10
   \<and> (\<exists>snap. snapshot_of_cleaned [(1, 100), (2, 110)] = Inr snap
          \<and> avg_abs_daily_return snap = 1 / 10)
   \<and> (100, 110) \<in> set (valid_pairs (map snd [(1 :: int, 100 :: real), (2, 110)]))
   \<and> valid_pairs (map snd [(1 :: int, - 4 :: real), (2, 2)]) = []
   \<and> mean_abs_return [(1, - 4), (2, 2)] = 0"
proof -
  let ?up = "[(1 :: int, 100 :: real), (2, 110)]" and ?neg = "[(1 :: int, - 4 :: real), (2, 2)]"
  have v: "valid_pairs (map snd ?neg) = []"
    by (simp add: valid_pairs_def)
  have s: "spec_avg_abs_daily_return (map snd ?up) = 1 / 10"
    by (simp add: spec_avg_abs_daily_return_def valid_pairs_def)
  have h: "2 \<le> length ?up \<and> snd (?up ! (length ?up - 2)) \<noteq> 0"
    "2 \<le> length ?up \<and> 0 < snd (?up ! (length ?up - 2))"
    by simp_all
  have "mean_abs_return ?up = spec_avg_abs_daily_return (map snd ?up)"
    using avg_abs_daily_return_mean [of ?up] by blast
  then have m: "mean_abs_return ?up = 1 / 10"
    unfolding s .
  have "\<exists>snap. snapshot_of_cleaned ?up = Inr snap
          \<and> avg_abs_daily_return snap = spec_avg_abs_daily_return (map snd ?up)"
    using avg_abs_daily_return_mean [of ?up] h(1) by blast
  then have e: "\<exists>snap. snapshot_of_cleaned ?up = Inr snap \<and> avg_abs_daily_return snap = 1 / 10"
    unfolding s .
  have "(snd (?up ! (length ?up - 2)), snd (?up ! (length ?up - 1)))
          \<in> set (valid_pairs (map snd ?up))"
    using avg_abs_daily_return_mean [of ?up] h(2) by blast
  then have p: "(100, 110) \<in> set (valid_pairs (map snd ?up))"
    by simp
  have z: "mean_abs_return ?neg = 0"
    using avg_abs_daily_return_mean [of ?neg] v by blast
  show ?thesis using m e p v z by blast
qed

text \<open>
  The converse fails: two equal closes form a valid pair, and the mean is \<open>0\<close>.
\<close>

theorem avg_abs_daily_return_zero_counterexample:
  "valid_pairs (map snd [(1 :: int, 5 :: real), (2, 5)]) = [(5, 5)]
   \<and> mean_abs_return [(1, 5), (2, 5)] = 0
   \<and> snapshot_of_cleaned [(1, 5), (2, 5)] =
       Inr \<lparr>last_price = 5, last_close_time = 2000000, yesterday_close = 5,
            yesterday_close_time = 1000000, pct_change_since_close = 0,
            avg_abs_daily_return = 0\<rparr>"
  by (simp add: valid_pairs_def mean_abs_return_spec spec_avg_abs_daily_return_def
      snapshot_of_cleaned_def fromtimestamp_def)

text \<open>
  Claim C1 asks that a prior close that is zero or negative makes the fetch fail with a
  retrieval error. The code divides by the prior close unguarded: with closes \<open>-4, 2\<close> it
  returns a snapshot built on the prior close \<open>-4\<close>, and with closes \<open>0, 2\<close> it raises
  \<open>ZeroDivisionError\<close>, although the loop of the returns guards the same division by
  \<open>prev_close > 0\<close>.
\<close>

theorem fetch_price_snapshot_unguarded_prior_close:
  "fetch_price_snapshot
     (\<lambda>k. Json \<lparr>result = [\<lparr>timestamp = [1, 2], quote = [\<lparr>close = [Some (- 4), Some 2]\<rparr>]\<rparr>]\<rparr>)
     ''BTC-USD'' 3
     = ([Get 1],
        Inr \<lparr>last_price = 2, last_close_time = 2000000, yesterday_close = - 4,
             yesterday_close_time = 1000000, pct_change_since_close = - 150,
             avg_abs_daily_return = 0\<rparr>)
   \<and> fetch_price_snapshot
     (\<lambda>k. Json \<lparr>result = [\<lparr>timestamp = [1, 2], quote = [\<lparr>close = [Some 0, Some 2]\<rparr>]\<rparr>]\<rparr>)
     ''BTC-USD'' 3
     = ([Get 1], Inl ZeroDivisionError)"
  by code_simp


subsection \<open>Deduplication in \<open>fetch_news\<close>\<close>

lemma fetch_entry_cases:
  "fetch_entry e (items, seen) =
     (if surviving e \<and> entry_key e \<notin> seen
      then (items @ [item_of e], insert (entry_key e) seen)
      else (items, seen))"
  by (cases "py_or (published_parsed e) (updated_parsed e)")
    (simp_all add: fetch_entry_def surviving_def entry_key_def item_of_def to_datetime_def Let_def)

lemma item_key_item_of: "item_key (item_of e) = entry_key e"
  by (simp add: item_key_def item_of_def entry_key_def)

lemma fold_fetch_entry_key:
  "filter (\<lambda>item. item_key item = k) (fst (fold fetch_entry es (items, seen))) =
     filter (\<lambda>item. item_key item = k) items @
       (if k \<in> seen then []
        else (case find (\<lambda>e. surviving e \<and> entry_key e = k) es of
                None \<Rightarrow> [] | Some e \<Rightarrow> [item_of e]))"
proof (induction es arbitrary: items seen)
  case Nil
  show ?case by simp
next
  case (Cons e es)
  show ?case
  proof (cases "surviving e \<and> entry_key e \<notin> seen")
    case True
    then show ?thesis
      using Cons.IH [of "items @ [item_of e]" "insert (entry_key e) seen"]
      by (auto simp add: fetch_entry_cases item_key_item_of)
  next
    case False
    then show ?thesis
      using Cons.IH [of items seen]
      by (auto simp add: fetch_entry_cases)
  qed
qed

lemma fold_sources:
  "fold (\<lambda>url st. fold fetch_entry (parse url) st) sources st
     = fold fetch_entry (concat (map parse sources)) st"
  by (induction sources arbitrary: st) simp_all

text \<open>
  Claim C8. For every key \<open>(title.lower(), link)\<close>, the items of \<open>fetch_news\<close> with that
  key are: none, when no surviving entry has the key; and otherwise exactly one, the item
  built from the first surviving entry with the key, in the order of the sources and of
  the entries of each source. Later entries with the key leave no item, and nothing is
  raised for them.
\<close>

theorem fetch_news_first_occurrence_wins:
  "filter (\<lambda>item. item_key item = k) (fetch_news parse sources) =
     (case find (\<lambda>e. surviving e \<and> entry_key e = k) (all_entries parse sources) of
        None \<Rightarrow> []
      | Some e \<Rightarrow> [item_of e])"
proof -
  let ?items = "fst (fold fetch_entry (all_entries parse sources) ([], {}))"
  have "filter (\<lambda>item. item_key item = k) ?items =
     (case find (\<lambda>e. surviving e \<and> entry_key e = k) (all_entries parse sources) of
        None \<Rightarrow> [] | Some e \<Rightarrow> [item_of e])"
    using fold_fetch_entry_key [of k "all_entries parse sources" "[]" "{}"] by simp
  moreover have "fetch_news parse sources = sort_key (\<lambda>item. - published item) ?items"
    by (simp add: fetch_news_def fold_sources all_entries_def)
  ultimately show ?thesis
    by (simp add: filter_sort split: option.split)
qed

theorem fetch_news_first_occurrence_wins_witness:
  "find (\<lambda>e. surviving e \<and> entry_key e = (''btc rally'', ''l''))
       (all_entries example_feeds [''a'', ''b''])
     = Some \<lparr>published_parsed = Some 100, updated_parsed = None, entry_title = ''  BTC   Rally '',
             entry_link = ''l'', entry_summary = ''first''\<rparr>
   \<and> filter (\<lambda>item. item_key item = (''btc rally'', ''l'')) (fetch_news example_feeds [''a'', ''b''])
     = [\<lparr>title = ''BTC Rally'', link = ''l'', published = 100000000, summary = ''first'',
         score = 1\<rparr>]
   \<and> fetch_news example_feeds [''a'', ''b'']
     = [\<lparr>title = ''Other'', link = ''l'', published = 300000000, summary = ''third'', score = 0\<rparr>,
        \<lparr>title = ''BTC Rally'', link = ''l'', published = 100000000, summary = ''first'',
         score = 1\<rparr>]"
proof -
  let ?e = "\<lparr>published_parsed = Some 100, updated_parsed = None, entry_title = ''  BTC   Rally '',
             entry_link = ''l'', entry_summary = ''first''\<rparr>"
  have f: "find (\<lambda>e. surviving e \<and> entry_key e = (''btc rally'', ''l''))
       (all_entries example_feeds [''a'', ''b'']) = Some ?e"
    by code_simp
  have i: "item_of ?e = \<lparr>title = ''BTC Rally'', link = ''l'', published = 100000000,
       summary = ''first'', score = 1\<rparr>"
    by code_simp
  have "filter (\<lambda>item. item_key item = (''btc rally'', ''l'')) (fetch_news example_feeds [''a'', ''b''])
     = [item_of ?e]"
    using fetch_news_first_occurrence_wins [of "(''btc rally'', ''l'')" example_feeds "[''a'', ''b'']"]
    unfolding f by simp
  then have g: "filter (\<lambda>item. item_key item = (''btc rally'', ''l''))
       (fetch_news example_feeds [''a'', ''b''])
     = [\<lparr>title = ''BTC Rally'', link = ''l'', published = 100000000, summary = ''first'',
         score = 1\<rparr>]"
    unfolding i .
  have a: "fetch_news example_feeds [''a'', ''b'']
     = [\<lparr>title = ''Other'', link = ''l'', published = 300000000, summary = ''third'', score = 0\<rparr>,
        \<lparr>title = ''BTC Rally'', link = ''l'', published = 100000000, summary = ''first'',
         score = 1\<rparr>]"
    by code_simp
  show ?thesis using f g a by blast
qed


end
